theory Spec2Isabelle
  imports Complex_Main "HOL-Library.Log_Nat"
begin

section \<open>Python values the code relies on\<close>

text \<open>
  Exceptions are values. The constructors carry the names of the Python classes the
  source raises (or that the interpreter raises on its behalf); \<open>LookupError\<close> and
  \<open>SchemaError\<close> are the two failures the specification gives to the sample store.
\<close>

datatype error =
    ValueError
  | FileNotFoundError
  | IsADirectoryError
  | IndexError
  | KeyError
  | ImportError
  | LookupError
  | SchemaError

text \<open>
  Python's class hierarchy, as far as it matters here: \<open>IndexError\<close> and \<open>KeyError\<close>
  derive from \<open>LookupError\<close>; \<open>FileNotFoundError\<close> and \<open>IsADirectoryError\<close> derive from
  \<open>OSError\<close>; \<open>ValueError\<close> and \<open>ImportError\<close> derive from \<open>Exception\<close> directly.
\<close>

fun is_LookupError :: "error \<Rightarrow> bool" where
  "is_LookupError IndexError = True"
| "is_LookupError KeyError = True"
| "is_LookupError LookupError = True"
| "is_LookupError _ = False"

definition raises_LookupError :: "error + 'a \<Rightarrow> bool" where
  "raises_LookupError r = (case r of Inl e \<Rightarrow> is_LookupError e | Inr _ \<Rightarrow> False)"

text \<open>\<open>xs[i]\<close> on a Python list: a negative index counts from the end, anything
  outside \<open>-len .. len-1\<close> raises \<open>IndexError\<close>.\<close>

definition py_index :: "'a list \<Rightarrow> int \<Rightarrow> error + 'a" where
  "py_index xs i =
     (if 0 \<le> i \<and> i < int (length xs) then Inr (xs ! nat i)
      else if i < 0 \<and> - int (length xs) \<le> i then Inr (xs ! nat (int (length xs) + i))
      else Inl IndexError)"

text \<open>\<open>sub in s\<close> on strings.\<close>

fun starts_with :: "string \<Rightarrow> string \<Rightarrow> bool" where
  "starts_with [] s = True"
| "starts_with (c # cs) [] = False"
| "starts_with (c # cs) (d # ds) = (c = d \<and> starts_with cs ds)"

fun contains :: "string \<Rightarrow> string \<Rightarrow> bool" where
  "contains sub [] = (sub = [])"
| "contains sub (d # ds) = (starts_with sub (d # ds) \<or> contains sub ds)"

text \<open>The decimal text of an integer, as \<open>str.format\<close> and f-strings produce it.\<close>

definition digit_char :: "nat \<Rightarrow> char" where
  "digit_char d = char_of (48 + d)"

fun str_nat :: "nat \<Rightarrow> string" where
  "str_nat n = (if n < 10 then [digit_char n] else str_nat (n div 10) @ [digit_char (n mod 10)])"

definition str_int :: "int \<Rightarrow> string" where
  "str_int i = (if i < 0 then CHR ''-'' # str_nat (nat (- i)) else str_nat (nat i))"

text \<open>String comparison by code point, and \<open>sorted\<close> as a stable insertion sort.\<close>

fun str_le :: "string \<Rightarrow> string \<Rightarrow> bool" where
  "str_le [] t = True"
| "str_le (c # cs) [] = False"
| "str_le (c # cs) (d # ds) =
     ((of_char c :: nat) < of_char d \<or> (c = d \<and> str_le cs ds))"

fun insert_sorted :: "string \<Rightarrow> string list \<Rightarrow> string list" where
  "insert_sorted x [] = [x]"
| "insert_sorted x (y # ys) = (if str_le x y then x # y # ys else y # insert_sorted x ys)"

fun py_sorted :: "string list \<Rightarrow> string list" where
  "py_sorted [] = []"
| "py_sorted (x # xs) = insert_sorted x (py_sorted xs)"

text \<open>\<open>os.path.join\<close> of two components and \<open>s.split(sep)[-1]\<close>, with \<open>sep = '/'\<close>.\<close>

definition join :: "string \<Rightarrow> string \<Rightarrow> string" where
  "join a b =
     (if starts_with ''/'' b then b
      else if a = [] \<or> last a = CHR ''/'' then a @ b
      else a @ ''/'' @ b)"

definition last_component :: "string \<Rightarrow> string" where
  "last_component s = rev (takeWhile (\<lambda>c. c \<noteq> CHR ''/'') (rev s))"


section \<open>The file system seen by the manager\<close>

text \<open>
  A directory is the list of its entries in \<open>listdir\<close> order; an entry is a file holding
  one saved parameter set, or a sub-directory. The file system maps the path of a
  directory, as the string the program uses for it, to its contents. Every name the
  manager joins to \<open>network_dir\<close> is free of separators (\<open>networks\<close>, \<open>backup_network\<close>,
  the last component of the session path, a name returned by \<open>listdir\<close>), so
  \<open>join(network_dir, f)\<close> is the entry \<open>f\<close> of the directory at \<open>network_dir\<close>.
\<close>

datatype 'p entry = File 'p | Folder

type_synonym 'p directory = "(string \<times> 'p entry) list"

type_synonym 'p filesystem = "string \<Rightarrow> 'p directory option"

definition listdir :: "'p directory \<Rightarrow> string list" where
  "listdir d = map fst d"

definition isfile :: "'p directory \<Rightarrow> string \<Rightarrow> bool" where
  "isfile d f = (case map_of d f of Some (File _) \<Rightarrow> True | _ \<Rightarrow> False)"

definition isdir :: "'p filesystem \<Rightarrow> string \<Rightarrow> bool" where
  "isdir fs p = (fs p \<noteq> None)"

definition remove :: "'p directory \<Rightarrow> string \<Rightarrow> error + 'p directory" where
  "remove d f =
     (case map_of d f of
        None \<Rightarrow> Inl FileNotFoundError
      | Some Folder \<Rightarrow> Inl IsADirectoryError
      | Some (File _) \<Rightarrow> Inr (filter (\<lambda>e. fst e \<noteq> f) d))"

fun remove_all :: "'p directory \<Rightarrow> string list \<Rightarrow> error + 'p directory" where
  "remove_all d [] = Inr d"
| "remove_all d (f # fs) =
     (case remove d f of Inl e \<Rightarrow> Inl e | Inr d' \<Rightarrow> remove_all d' fs)"

definition write_file :: "'p directory \<Rightarrow> string \<Rightarrow> 'p \<Rightarrow> error + 'p directory" where
  "write_file d f p =
     (case map_of d f of
        None \<Rightarrow> Inr (d @ [(f, File p)])
      | Some Folder \<Rightarrow> Inl IsADirectoryError
      | Some (File _) \<Rightarrow> Inr (map (\<lambda>e. if fst e = f then (f, File p) else e) d))"

definition read_file :: "'p directory \<Rightarrow> string \<Rightarrow> error + 'p" where
  "read_file d f =
     (case map_of d f of
        None \<Rightarrow> Inl FileNotFoundError
      | Some Folder \<Rightarrow> Inl IsADirectoryError
      | Some (File p) \<Rightarrow> Inr p)"


section \<open>Arrays and normalization\<close>

text \<open>
  An array is its shape and its elements in row-major order, of dtype \<open>float64\<close>. A
  finite element is the real number it denotes (\<open>-0.0\<close> and \<open>0.0\<close> are the same
  number); \<open>inf\<close>, \<open>-inf\<close> and \<open>nan\<close> are the single value \<open>NonFinite\<close>, which every
  operation used here maps to a non-finite value again. The coefficients are finite
  Python floats. Tensors of the network library carry the same data, so
  \<open>numpy_to_tensor\<close> and \<open>tensor_to_numpy\<close> are the identity on this model.
\<close>

datatype elem = Fin real | NonFinite

datatype ndarray = NDArray (shape: "nat list") (elems: "elem list")

fun is_finite :: "elem \<Rightarrow> bool" where
  "is_finite (Fin x) = True"
| "is_finite NonFinite = False"

text \<open>
  The result of an arithmetic operation is its exact value rounded to binary64, to
  nearest with ties to even: 53 significant bits, the exponent of the last bit
  between \<open>-1074\<close> (the subnormal numbers) and \<open>971\<close>, and anything that rounds to
  \<open>2 ^ 1024\<close> or more overflows to \<open>inf\<close>. \<open>ilog2 a\<close> is the exponent of the leading bit
  of a positive \<open>a\<close>.
\<close>

definition pow2 :: "int \<Rightarrow> real" where
  "pow2 e = (if 0 \<le> e then 2 ^ nat e else 1 / 2 ^ nat (- e))"

definition ilog2 :: "real \<Rightarrow> int" where
  "ilog2 a = (if 1 \<le> a then bitlen \<lfloor>a\<rfloor> - 1 else - bitlen (\<lceil>1 / a\<rceil> - 1))"

definition round_half_even :: "real \<Rightarrow> int" where
  "round_half_even y =
     (let f = \<lfloor>y\<rfloor>; d = y - of_int f
      in if d < 1 / 2 then f
         else if 1 / 2 < d then f + 1
         else if even f then f else f + 1)"

definition round64 :: "real \<Rightarrow> elem" where
  "round64 v =
     (if v = 0 then Fin 0
      else
        (let a = \<bar>v\<bar>;
             e = max (- 1074) (min 971 (ilog2 a - 52));
             n = round_half_even (a / pow2 e)
         in if 2 ^ 53 \<le> n \<and> e = 971 then NonFinite
            else Fin (sgn v * (of_int n * pow2 e))))"

text \<open>\<open>data - m\<close>, \<open>data / s\<close>, \<open>data * s\<close> and \<open>data + m\<close> on one element. Dividing by a
  zero scale gives \<open>inf\<close>, \<open>-inf\<close> or \<open>nan\<close> (with a warning, not an exception).\<close>

fun elem_sub :: "real \<Rightarrow> elem \<Rightarrow> elem" where
  "elem_sub m (Fin x) = round64 (x - m)"
| "elem_sub m NonFinite = NonFinite"

fun elem_div :: "real \<Rightarrow> elem \<Rightarrow> elem" where
  "elem_div s (Fin x) = (if s = 0 then NonFinite else round64 (x / s))"
| "elem_div s NonFinite = NonFinite"

fun elem_mul :: "real \<Rightarrow> elem \<Rightarrow> elem" where
  "elem_mul s (Fin x) = round64 (x * s)"
| "elem_mul s NonFinite = NonFinite"

fun elem_add :: "real \<Rightarrow> elem \<Rightarrow> elem" where
  "elem_add m (Fin x) = round64 (x + m)"
| "elem_add m NonFinite = NonFinite"

definition array_map :: "(elem \<Rightarrow> elem) \<Rightarrow> ndarray \<Rightarrow> ndarray" where
  "array_map f a = NDArray (shape a) (map f (elems a))"

text \<open>\<open>array([a])\<close> puts a batch axis of length one in front; \<open>t[0]\<close> takes the first item
  along the first axis; \<open>a.reshape(-1)\<close> returns a one-dimensional array of the same
  elements and leaves \<open>a\<close> as it is.\<close>

definition add_axis :: "ndarray \<Rightarrow> ndarray" where
  "add_axis a = NDArray (1 # shape a) (elems a)"

definition first_item :: "ndarray \<Rightarrow> error + ndarray" where
  "first_item t =
     (case shape t of
        [] \<Rightarrow> Inl IndexError
      | n # sh \<Rightarrow> if n = 0 then Inl IndexError
                 else Inr (NDArray sh (take (prod_list sh) (elems t))))"

definition reshape_flat :: "ndarray \<Rightarrow> ndarray" where
  "reshape_flat a = NDArray [length (elems a)] (elems a)"

definition normalize_data :: "ndarray \<Rightarrow> real list \<Rightarrow> bool \<Rightarrow> error + ndarray" where
  "normalize_data data normalization reverse =
     (if reverse then
        (case py_index normalization 1 of
           Inl e \<Rightarrow> Inl e
         | Inr s \<Rightarrow>
             (case py_index normalization 0 of
                Inl e \<Rightarrow> Inl e
              | Inr m \<Rightarrow> Inr (array_map (elem_add m) (array_map (elem_mul s) data))))
      else
        (case py_index normalization 0 of
           Inl e \<Rightarrow> Inl e
         | Inr m \<Rightarrow>
             (case py_index normalization 1 of
                Inl e \<Rightarrow> Inl e
              | Inr s \<Rightarrow> Inr (array_map (elem_div s) (array_map (elem_sub m) data)))))"

text \<open>\<open>normalize_data\<close> followed by \<open>normalize_data\<close> with \<open>reverse=True\<close> and the same
  coefficients.\<close>

definition normalize_round_trip :: "ndarray \<Rightarrow> real list \<Rightarrow> error + ndarray" where
  "normalize_round_trip data normalization =
     (case normalize_data data normalization False of
        Inl e \<Rightarrow> Inl e
      | Inr a \<Rightarrow> normalize_data a normalization True)"

text \<open>
  How far a result is from the input. \<open>within_tolerance tol\<close> is a relative tolerance
  on the element itself; \<open>close_to mean\<close> allows \<open>2 ^ -51\<close> (four rounding errors) of
  the sizes of the element and of its distance to the mean. \<open>round_trip_in_range\<close>
  says that no operation of the round trip on a finite element overflows or
  underflows: each exact result is zero or a magnitude in the range of the normal
  binary64 numbers.
\<close>

definition within_tolerance :: "real \<Rightarrow> elem \<Rightarrow> elem \<Rightarrow> bool" where
  "within_tolerance tol e e' =
     (case e of
        NonFinite \<Rightarrow> False
      | Fin x \<Rightarrow> (case e' of NonFinite \<Rightarrow> False | Fin r \<Rightarrow> \<bar>r - x\<bar> \<le> tol * \<bar>x\<bar>))"

definition close_to :: "real \<Rightarrow> elem \<Rightarrow> elem \<Rightarrow> bool" where
  "close_to mean e e' =
     (case e of
        NonFinite \<Rightarrow> False
      | Fin x \<Rightarrow>
          (case e' of
             NonFinite \<Rightarrow> False
           | Fin r \<Rightarrow> \<bar>r - x\<bar> \<le> (\<bar>x - mean\<bar> + \<bar>x\<bar>) / 2 ^ 51))"

definition in_normal_range :: "real \<Rightarrow> bool" where
  "in_normal_range v = (v = 0 \<or> (pow2 (- 1022) \<le> \<bar>v\<bar> \<and> \<bar>v\<bar> \<le> pow2 1023))"

definition round_trip_in_range :: "real \<Rightarrow> real \<Rightarrow> elem \<Rightarrow> bool" where
  "round_trip_in_range mean scale e =
     (case e of
        NonFinite \<Rightarrow> False
      | Fin x \<Rightarrow>
          in_normal_range (x - mean) \<and>
          (case elem_sub mean (Fin x) of
             NonFinite \<Rightarrow> False
           | Fin a \<Rightarrow>
               in_normal_range (a / scale) \<and>
               (case elem_div scale (Fin a) of
                  NonFinite \<Rightarrow> False
                | Fin b \<Rightarrow>
                    in_normal_range (b * scale) \<and>
                    (case elem_mul scale (Fin b) of
                       NonFinite \<Rightarrow> False
                     | Fin c \<Rightarrow> in_normal_range (c + mean)))))"

type_synonym batch = "(string \<times> ndarray) list"

type_synonym coefficients = "(string \<times> real list) list"


section \<open>The sample store\<close>

text \<open>
  \<open>DatabaseHandler\<close> belongs to the repository but its code is not part of the sources
  at hand; the manager only calls it. Its tables are modelled from the specification:
  a table has a registered schema and rows of named fields, and the line id of a row
  is its position, the instance ids being \<open>0 .. N-1\<close>. A row holds the fields that have
  been written; a pre-allocated row holds none.
\<close>

type_synonym row = "string \<Rightarrow> ndarray option"

record table =
  schema :: "string list"
  rows :: "row list"

record database_handler =
  dataset :: table
  exchange :: table

definition select_table :: "database_handler \<Rightarrow> bool \<Rightarrow> table" where
  "select_table db ex = (if ex then exchange db else dataset db)"

definition store_table :: "database_handler \<Rightarrow> bool \<Rightarrow> table \<Rightarrow> database_handler" where
  "store_table db ex t = (if ex then db\<lparr>exchange := t\<rparr> else db\<lparr>dataset := t\<rparr>)"

text \<open>Modelled from the spec: \<open>create_fields\<close> of the missing \<open>DatabaseHandler\<close>,
  "registers field schema for the training table or the Exchange table; fails with
  SchemaError if called after rows exist".\<close>

definition create_fields :: "string list \<Rightarrow> bool \<Rightarrow> database_handler \<Rightarrow> error + database_handler" where
  "create_fields fs ex db =
     (let t = select_table db ex
      in if rows t \<noteq> [] then Inl SchemaError
         else Inr (store_table db ex (t\<lparr>schema := schema t @ fs\<rparr>)))"

text \<open>Modelled from the spec: \<open>add_data\<close> of the missing \<open>DatabaseHandler\<close>, "appends a
  row; for the Exchange table, \<open>data={}\<close> pre-allocates an empty row", a field written
  without prior registration being a SchemaError. It returns the new line id.\<close>

definition add_data :: "bool \<Rightarrow> batch \<Rightarrow> database_handler \<Rightarrow> error + (int \<times> database_handler)" where
  "add_data ex data db =
     (let t = select_table db ex
      in if \<not> list_all (\<lambda>f. f \<in> set (schema t)) (map fst data) then Inl SchemaError
         else Inr (int (length (rows t)),
                   store_table db ex (t\<lparr>rows := rows t @ [map_of data]\<rparr>)))"

text \<open>Modelled from the spec: \<open>get_line\<close> of the missing \<open>DatabaseHandler\<close>, a
  "single-row read" that returns the requested fields of the row "plus the assigned
  id"; "reading a line id that does not exist is a fatal LookupError". The id is the
  first component of the result, the fields that hold a value the second.\<close>

definition get_line :: "string \<Rightarrow> string list \<Rightarrow> int \<Rightarrow> database_handler \<Rightarrow> error + (int \<times> batch)" where
  "get_line table_name fs line_id db =
     (let t = select_table db (table_name = ''Exchange'')
      in if 0 \<le> line_id \<and> line_id < int (length (rows t))
         then Inr (line_id,
                   List.map_filter
                     (\<lambda>f. case (rows t ! nat line_id) f of None \<Rightarrow> None | Some v \<Rightarrow> Some (f, v)) fs)
         else Inl LookupError)"

text \<open>Modelled from the spec: \<open>update\<close> of the missing \<open>DatabaseHandler\<close>, an "in-place
  overwrite of an existing row's fields" that "only ever changes the fields named in its
  payload"; a missing line id is a LookupError, an unregistered field a SchemaError.\<close>

definition update :: "string \<Rightarrow> batch \<Rightarrow> int \<Rightarrow> database_handler \<Rightarrow> error + database_handler" where
  "update table_name data line_id db =
     (let ex = (table_name = ''Exchange''); t = select_table db ex
      in if \<not> (0 \<le> line_id \<and> line_id < int (length (rows t))) then Inl LookupError
         else if \<not> list_all (\<lambda>f. f \<in> set (schema t)) (map fst data) then Inl SchemaError
         else Inr (store_table db ex
                     (t\<lparr>rows := (rows t)[nat line_id := (rows t ! nat line_id) ++ map_of data]\<rparr>)))"


section \<open>The network manager\<close>

text \<open>
  The network, its configuration and the data transformation are objects of classes
  that the manager receives; what the manager uses of them is a record. \<open>parameters\<close>
  is the parameter set the network holds, \<open>extension\<close> the suffix its
  \<open>save_parameters\<close> appends to the path it is given (the manager looks for
  \<open>networks.\<close> when it loads what it saved as \<open>networks\<close>).
\<close>

record 'p network =
  net_fields :: "string list"
  pred_fields :: "string list"
  pred_norm_fields :: "(string \<times> string) list"
  parameters :: 'p
  extension :: string
  predict :: "batch \<Rightarrow> batch"

record transformation =
  transform_before_prediction :: "batch \<Rightarrow> batch"
  transform_before_loss :: "batch \<Rightarrow> batch \<times> batch option"
  transform_before_apply :: "batch \<Rightarrow> batch"

record 'p network_config =
  config_save_every_epoch :: int
  config_network_dir :: "string option"
  config_which_network :: int
  has_loss :: bool
  has_optimizer :: bool
  create_network :: "'p network"
  create_data_transformation :: transformation

text \<open>Modelled from the spec: the attribute \<open>training_stuff\<close> of the missing
  \<open>NetworkConfig\<close>, "both a loss and an optimizer supplied".\<close>

definition training_stuff :: "('p, 'x) network_config_scheme \<Rightarrow> bool" where
  "training_stuff cfg = (has_loss cfg \<and> has_optimizer cfg)"

text \<open>
  \<open>copy_dir\<close> and \<open>create_dir\<close> of \<open>DeepPhysX.utils.path\<close> are neither in the sources
  at hand nor described by the specification: they are parameters. Each returns the
  path of the directory it made and the file system with that directory in it.
\<close>

record 'p path_utils =
  copy_dir :: "'p filesystem \<Rightarrow> string \<Rightarrow> string \<Rightarrow> string \<Rightarrow> string \<times> 'p filesystem"
  create_dir :: "'p filesystem \<Rightarrow> string \<Rightarrow> string \<Rightarrow> string \<times> 'p filesystem"

record 'p manager =
  name :: string
  session :: string
  new_session :: bool
  network_dir :: string
  network_template_name :: string
  saved_counter :: int
  save_every_epoch :: int
  network :: "'p network"
  is_training :: bool
  data_transformation :: transformation

text \<open>What the manager prints, one constructor per \<open>print\<close> with the values it
  interpolates.\<close>

datatype msg =
    FallbackWarning int
  | LoadingFrom string
  | SavingFinal string
  | SavingIntermediate string

text \<open>
  \<open>network_template_name.format(k)\<close>: the template ends in its only replacement
  field \<open>{}\<close> (session names are taken to be free of braces), which the decimal text
  of \<open>k\<close> replaces.
\<close>

definition format_template :: "string \<Rightarrow> int \<Rightarrow> string" where
  "format_template t k = take (length t - 2) t @ str_int k"

subsection \<open>Loading\<close>

text \<open>
  Step 1 of \<open>load_network\<close>. The source sorts the joined paths; they share the prefix
  \<open>network_dir\<close>, so their order is the order of the names, which is what the list
  holds here.
\<close>

definition networks_list :: "'p directory \<Rightarrow> string list" where
  "networks_list d =
     py_sorted (filter (\<lambda>f. isfile d f \<and> contains ''network_'' f) (listdir d))
     @ filter (\<lambda>f. isfile d f \<and> contains ''networks.'' f) (listdir d)"

definition load_parameters :: "'p network \<Rightarrow> 'p directory \<Rightarrow> string \<Rightarrow> error + 'p network" where
  "load_parameters net d f =
     (case read_file d f of Inl e \<Rightarrow> Inl e | Inr p \<Rightarrow> Inr (net\<lparr>parameters := p\<rparr>))"

definition load_network ::
  "'p manager \<Rightarrow> int \<Rightarrow> 'p filesystem \<Rightarrow> error + ('p manager \<times> msg list)" where
  "load_network m which_network fs =
     (case fs (network_dir m) of
        None \<Rightarrow> Inl FileNotFoundError
      | Some d \<Rightarrow>
          (let nl = networks_list d in
           if length nl = 0 then Inl FileNotFoundError
           else
             (let (which, warning) =
                    (if length nl = 1 then (0, [])
                     else if which_network > int (length nl)
                          then (- 1, [FallbackWarning (saved_counter m)])
                     else (which_network, []))
              in case py_index nl which of
                   Inl e \<Rightarrow> Inl e
                 | Inr f \<Rightarrow>
                     (case load_parameters (network m) d f of
                        Inl e \<Rightarrow> Inl e
                      | Inr net \<Rightarrow>
                          Inr (m\<lparr>network := net\<rparr>,
                               warning @ [LoadingFrom (join (network_dir m) f)])))))"

subsection \<open>Saving\<close>

definition save_parameters :: "'p network \<Rightarrow> 'p directory \<Rightarrow> string \<Rightarrow> error + 'p directory" where
  "save_parameters net d f = write_file d (f @ extension net) (parameters net)"

definition save_network ::
  "'p manager \<Rightarrow> bool \<Rightarrow> 'p filesystem \<Rightarrow> error + ('p manager \<times> 'p filesystem \<times> msg list)" where
  "save_network m last_save fs =
     (case fs (network_dir m) of
        None \<Rightarrow> Inl FileNotFoundError
      | Some d \<Rightarrow>
          if last_save then
            (case save_parameters (network m) d ''networks'' of
               Inl e \<Rightarrow> Inl e
             | Inr d' \<Rightarrow> Inr (m, fs(network_dir m \<mapsto> d'), [SavingFinal (network_dir m)]))
          else
            (case remove_all d (filter (contains ''backup'') (listdir d)) of
               Inl e \<Rightarrow> Inl e
             | Inr d1 \<Rightarrow>
                 if save_every_epoch m > 0 then
                   (let m1 = m\<lparr>saved_counter := saved_counter m + 1\<rparr> in
                    if saved_counter m1 mod save_every_epoch m1 \<noteq> 0 then
                      (let f = format_template (network_template_name m1) (saved_counter m1) in
                       case save_parameters (network m1) d1 f of
                         Inl e \<Rightarrow> Inl e
                       | Inr d2 \<Rightarrow>
                           Inr (m1, fs(network_dir m1 \<mapsto> d2),
                                [SavingIntermediate (join (network_dir m1) f)]))
                    else
                      (case save_parameters (network m1) d1 ''backup_network'' of
                         Inl e \<Rightarrow> Inl e
                       | Inr d2 \<Rightarrow> Inr (m1, fs(network_dir m1 \<mapsto> d2), [])))
                 else
                   (case save_parameters (network m) d1 ''backup_network'' of
                      Inl e \<Rightarrow> Inl e
                    | Inr d2 \<Rightarrow> Inr (m, fs(network_dir m \<mapsto> d2), []))))"

subsection \<open>Construction and closing\<close>

text \<open>
  The constructor. Creating the network, the optimization and the data
  transformation, and switching the network between training and evaluation, leave
  the state modelled here as it is.
\<close>

definition init ::
  "'p path_utils \<Rightarrow> 'p network_config \<Rightarrow> string \<Rightarrow> string \<Rightarrow> bool \<Rightarrow> 'p filesystem
     \<Rightarrow> error + ('p manager \<times> 'p filesystem \<times> msg list)" where
  "init utils network_config pipeline session_path new fs =
     (if pipeline = ''training'' \<and> \<not> training_stuff network_config then Inl ValueError
      else
        (let m = \<lparr>name = ''NetworkManager'',
                  session = session_path,
                  new_session = new,
                  network_dir = [],
                  network_template_name = last_component session_path @ ''_network_{}'',
                  saved_counter = 0,
                  save_every_epoch = config_save_every_epoch network_config,
                  network = create_network network_config,
                  is_training = (pipeline = ''training''),
                  data_transformation = create_data_transformation network_config\<rparr>
         in if is_training m then
              (if new \<and> config_network_dir network_config \<noteq> None
                  \<and> isdir fs (the (config_network_dir network_config))
               then
                 (let (dir, fs') = copy_dir utils fs (the (config_network_dir network_config))
                                     session_path ''networks''
                  in case load_network (m\<lparr>network_dir := dir\<rparr>)
                            (config_which_network network_config) fs' of
                       Inl e \<Rightarrow> Inl e
                     | Inr (m', out) \<Rightarrow> Inr (m', fs', out))
               else
                 (let (dir, fs') = create_dir utils fs session_path ''networks''
                  in Inr (m\<lparr>network_dir := dir\<rparr>, fs', [])))
            else
              (case load_network (m\<lparr>network_dir := join session_path ''networks/''\<rparr>)
                      (config_which_network network_config) fs of
                 Inl e \<Rightarrow> Inl e
               | Inr (m', out) \<Rightarrow> Inr (m', fs, out))))"

definition close ::
  "'p manager \<Rightarrow> 'p filesystem \<Rightarrow> error + ('p manager \<times> 'p filesystem \<times> msg list)" where
  "close m fs = (if is_training m then save_network m True fs else Inr (m, fs, []))"

subsection \<open>The Exchange table\<close>

fun add_clients :: "nat \<Rightarrow> database_handler \<Rightarrow> error + database_handler" where
  "add_clients 0 db = Inr db"
| "add_clients (Suc n) db =
     (case add_data True [] db of Inl e \<Rightarrow> Inl e | Inr (_, db') \<Rightarrow> add_clients n db')"

definition link_clients ::
  "'p manager \<Rightarrow> int option \<Rightarrow> database_handler \<Rightarrow> error + database_handler" where
  "link_clients m nb_clients db =
     (case nb_clients of
        None \<Rightarrow> Inr db
      | Some n \<Rightarrow>
          (case create_fields (net_fields (network m) @ pred_fields (network m)) True db of
             Inl e \<Rightarrow> Inl e
           | Inr db' \<Rightarrow> add_clients (nat n) db'))"

subsection \<open>Online prediction\<close>

fun prepare_sample :: "coefficients \<Rightarrow> batch \<Rightarrow> error + batch" where
  "prepare_sample normalization [] = Inr []"
| "prepare_sample normalization ((field, v) # rest) =
     (case (case map_of normalization field of
              None \<Rightarrow> Inr (add_axis v)
            | Some c \<Rightarrow> normalize_data (add_axis v) c False) of
        Inl e \<Rightarrow> Inl e
      | Inr a \<Rightarrow>
          (case prepare_sample normalization rest of
             Inl e \<Rightarrow> Inl e
           | Inr s \<Rightarrow> Inr ((field, a) # s)))"

definition network_output :: "'p manager \<Rightarrow> batch \<Rightarrow> batch" where
  "network_output m sample =
     (let data_net = transform_before_prediction (data_transformation m) sample;
          data_pred = predict (network m) data_net;
          data_pred = fst (transform_before_loss (data_transformation m) data_pred)
      in transform_before_apply (data_transformation m) data_pred)"

text \<open>The loop that returns the prediction. The value of \<open>reshape(-1)\<close> is computed and
  dropped, as the statement \<open>data_pred[field].reshape(-1)\<close> does.\<close>

fun return_prediction :: "(string \<times> string) list \<Rightarrow> coefficients \<Rightarrow> batch \<Rightarrow> error + batch" where
  "return_prediction norm_fields normalization [] = Inr []"
| "return_prediction norm_fields normalization ((field, t) # rest) =
     (case first_item t of
        Inl e \<Rightarrow> Inl e
      | Inr x \<Rightarrow>
          (case map_of norm_fields field of
             None \<Rightarrow> Inl KeyError
           | Some target \<Rightarrow>
               (case (case map_of normalization target of
                        None \<Rightarrow> Inr x
                      | Some c \<Rightarrow> normalize_data x c True) of
                  Inl e \<Rightarrow> Inl e
                | Inr y \<Rightarrow>
                    (let flat = reshape_flat y in
                     case return_prediction norm_fields normalization rest of
                       Inl e \<Rightarrow> Inl e
                     | Inr ys \<Rightarrow> Inr ((field, y) # ys)))))"

text \<open>The first half of \<open>compute_online_prediction\<close>: the net fields of the row, without
  its \<open>id\<close>, each with a batch axis, normalized where coefficients are given.\<close>

definition online_sample ::
  "'p manager \<Rightarrow> int \<Rightarrow> coefficients \<Rightarrow> database_handler \<Rightarrow> error + batch" where
  "online_sample m instance coeffs db =
     (case get_line ''Exchange'' (net_fields (network m)) instance db of
        Inl e \<Rightarrow> Inl e
      | Inr (line, sample) \<Rightarrow> prepare_sample coeffs sample)"

definition compute_online_prediction ::
  "'p manager \<Rightarrow> int \<Rightarrow> coefficients option \<Rightarrow> database_handler \<Rightarrow> error + database_handler" where
  "compute_online_prediction m instance normalization db =
     (let coeffs = (case normalization of None \<Rightarrow> [] | Some n \<Rightarrow> n) in
      case online_sample m instance coeffs db of
        Inl e \<Rightarrow> Inl e
      | Inr sample \<Rightarrow>
          (case return_prediction (pred_norm_fields (network m)) coeffs
                  (network_output m sample) of
             Inl e \<Rightarrow> Inl e
           | Inr data_pred \<Rightarrow> update ''Exchange'' data_pred instance db))"


section \<open>The worker launcher\<close>

text \<open>
  \<open>int(s)\<close> on a string in base ten, for ASCII text: surrounding whitespace is
  dropped, one sign may lead, and the digits may be grouped by single underscores.
  Anything else is a \<open>ValueError\<close>.
\<close>

definition is_space :: "char \<Rightarrow> bool" where
  "is_space c = ((of_char c :: nat) = 32 \<or> (9 \<le> (of_char c :: nat) \<and> (of_char c :: nat) \<le> 13))"

definition is_digit :: "char \<Rightarrow> bool" where
  "is_digit c = (48 \<le> (of_char c :: nat) \<and> (of_char c :: nat) \<le> 57)"

definition digit_value :: "char \<Rightarrow> nat" where
  "digit_value c = of_char c - 48"

definition strip :: "string \<Rightarrow> string" where
  "strip s = rev (dropWhile is_space (rev (dropWhile is_space s)))"

fun digits_value :: "nat \<Rightarrow> string \<Rightarrow> nat option" where
  "digits_value acc [] = Some acc"
| "digits_value acc [c] = (if is_digit c then Some (10 * acc + digit_value c) else None)"
| "digits_value acc (c # d # ds) =
     (if is_digit c then digits_value (10 * acc + digit_value c) (d # ds)
      else if c = CHR ''_'' \<and> is_digit d then digits_value (10 * acc + digit_value d) ds
      else None)"

definition unsigned_int :: "string \<Rightarrow> error + int" where
  "unsigned_int s =
     (case s of
        [] \<Rightarrow> Inl ValueError
      | d # ds \<Rightarrow>
          if is_digit d
          then (case digits_value (digit_value d) ds of
                  None \<Rightarrow> Inl ValueError
                | Some n \<Rightarrow> Inr (int n))
          else Inl ValueError)"

definition py_int :: "string \<Rightarrow> error + int" where
  "py_int s =
     (case strip s of
        [] \<Rightarrow> Inl ValueError
      | c # cs \<Rightarrow>
          if c = CHR ''-'' then (case unsigned_int cs of Inl e \<Rightarrow> Inl e | Inr n \<Rightarrow> Inr (- n))
          else if c = CHR ''+'' then unsigned_int cs
          else unsigned_int (c # cs))"

text \<open>\<open>os.path.dirname\<close>, and the name \<open>module_name = argv[1].split(sep)[-1][:-3]\<close>.\<close>

definition dirname :: "string \<Rightarrow> string" where
  "dirname p =
     (let head = take (length p - length (last_component p)) p
      in if head \<noteq> [] \<and> \<not> list_all (\<lambda>c. c = CHR ''/'') head
         then rev (dropWhile (\<lambda>c. c = CHR ''/'') (rev head))
         else head)"

definition module_of_path :: "string \<Rightarrow> string" where
  "module_of_path p = (let f = last_component p in take (length f - 3) f)"

text \<open>
  The client the launcher builds, and what a run of the script comes to: the usage
  line for \<open>argv[0]\<close> with an exit status, an uncaught exception, or a client that was
  created, initialised and launched. Whether the environment class can be imported
  from the module, once its directory is on the search path, is a parameter.
\<close>

record tcpip_client =
  environment :: "string \<times> string"
  ip_address :: string
  port :: int
  instance_id :: int
  instance_nb :: int

datatype outcome =
    Usage string int
  | Raised error
  | Launched tcpip_client

definition launch_client :: "(string \<Rightarrow> string \<Rightarrow> string \<Rightarrow> bool) \<Rightarrow> string list \<Rightarrow> outcome" where
  "launch_client importable argv =
     (if \<not> importable (dirname (argv ! 1)) (module_of_path (argv ! 1)) (argv ! 2)
      then Raised ImportError
      else
        (case py_int (argv ! 4) of
           Inl e \<Rightarrow> Raised e
         | Inr p \<Rightarrow>
             (case py_int (argv ! 5) of
                Inl e \<Rightarrow> Raised e
              | Inr i \<Rightarrow>
                  (case py_int (argv ! 6) of
                     Inl e \<Rightarrow> Raised e
                   | Inr n \<Rightarrow>
                       Launched \<lparr>environment = (module_of_path (argv ! 1), argv ! 2),
                                 ip_address = argv ! 3,
                                 port = p,
                                 instance_id = i,
                                 instance_nb = n\<rparr>))))"

definition launcher_main :: "(string \<Rightarrow> string \<Rightarrow> string \<Rightarrow> bool) \<Rightarrow> string list \<Rightarrow> outcome" where
  "launcher_main importable argv =
     (if length argv \<noteq> 7
      then (case py_index argv 0 of Inl e \<Rightarrow> Raised e | Inr script \<Rightarrow> Usage script 1)
      else launch_client importable argv)"

fun is_usage_exit :: "outcome \<Rightarrow> bool" where
  "is_usage_exit (Usage script status) = True"
| "is_usage_exit _ = False"


section \<open>Concrete sessions\<close>

text \<open>The values the closed theorems below are evaluated at: a network whose
  prediction is a fixed tensor, the default data transformation, a manager of the
  session \<open>sessions/default\<close>, a file system holding its network directory, and a sample
  store with one Exchange row.\<close>

definition example_network :: "ndarray \<Rightarrow> nat network" where
  "example_network t =
     \<lparr>net_fields = [''input''],
      pred_fields = [''prediction''],
      pred_norm_fields = [(''prediction'', ''ground_truth'')],
      parameters = 7,
      extension = ''.pth'',
      predict = (\<lambda>b. [(''prediction'', t)])\<rparr>"

definition example_transformation :: transformation where
  "example_transformation =
     \<lparr>transform_before_prediction = (\<lambda>b. b),
      transform_before_loss = (\<lambda>b. (b, None)),
      transform_before_apply = (\<lambda>b. b)\<rparr>"

definition example_manager :: "int \<Rightarrow> bool \<Rightarrow> ndarray \<Rightarrow> nat manager" where
  "example_manager n training t =
     \<lparr>name = ''NetworkManager'',
      session = ''sessions/default'',
      new_session = True,
      network_dir = ''sessions/default/networks'',
      network_template_name = ''default_network_{}'',
      saved_counter = 0,
      save_every_epoch = n,
      network = example_network t,
      is_training = training,
      data_transformation = example_transformation\<rparr>"

definition example_filesystem :: "nat directory \<Rightarrow> nat filesystem" where
  "example_filesystem d = (\<lambda>p. if p = ''sessions/default/networks'' then Some d else None)"

definition prediction_filesystem :: "nat directory \<Rightarrow> nat filesystem" where
  "prediction_filesystem d = (\<lambda>p. if p = ''sessions/default/networks/'' then Some d else None)"

definition example_config :: "bool \<Rightarrow> bool \<Rightarrow> nat network_config" where
  "example_config loss optimizer =
     \<lparr>config_save_every_epoch = 2,
      config_network_dir = None,
      config_which_network = - 1,
      has_loss = loss,
      has_optimizer = optimizer,
      create_network = example_network (NDArray [1, 1] [Fin 3]),
      create_data_transformation = example_transformation\<rparr>"

definition example_utils :: "nat path_utils" where
  "example_utils =
     \<lparr>copy_dir = (\<lambda>fs src dest sub. (join dest sub, fs(join dest sub := fs src))),
      create_dir = (\<lambda>fs dir sub. (join dir sub, fs(join dir sub \<mapsto> [])))\<rparr>"

definition example_database :: database_handler where
  "example_database =
     \<lparr>dataset = \<lparr>schema = [], rows = []\<rparr>,
      exchange = \<lparr>schema = [''input'', ''prediction'', ''step''],
                  rows = [[''input'' \<mapsto> NDArray [1] [Fin 5], ''step'' \<mapsto> NDArray [1] [Fin 9]]]\<rparr>\<rparr>"

text \<open>Reading results: the parameters a load left in the network with what it printed,
  the entries of the network directory after a save with the new counter and what it
  printed, and a field of an Exchange row after a prediction.\<close>

definition loaded :: "error + ('p manager \<times> msg list) \<Rightarrow> error + ('p \<times> msg list)" where
  "loaded r = (case r of Inl e \<Rightarrow> Inl e | Inr (m, out) \<Rightarrow> Inr (parameters (network m), out))"

definition saved ::
  "error + ('p manager \<times> 'p filesystem \<times> msg list) \<Rightarrow> string \<Rightarrow> error + (int \<times> 'p directory option \<times> msg list)" where
  "saved r dir = (case r of Inl e \<Rightarrow> Inl e | Inr (m, fs, out) \<Rightarrow> Inr (saved_counter m, fs dir, out))"

definition exchange_field :: "error + database_handler \<Rightarrow> nat \<Rightarrow> string \<Rightarrow> ndarray option" where
  "exchange_field r i f =
     (case r of
        Inl e \<Rightarrow> None
      | Inr db \<Rightarrow> if i < length (rows (exchange db)) then (rows (exchange db) ! i) f else None)"

text \<open>Two intermediate saves in a row, the second on the state the first left.\<close>

definition save_twice ::
  "'p manager \<Rightarrow> 'p filesystem \<Rightarrow> error + ('p manager \<times> 'p filesystem \<times> msg list)" where
  "save_twice m fs =
     (case save_network m False fs of
        Inl e \<Rightarrow> Inl e
      | Inr (m1, fs1, out1) \<Rightarrow>
          (case save_network m1 False fs1 of
             Inl e \<Rightarrow> Inl e
           | Inr (m2, fs2, out2) \<Rightarrow> Inr (m2, fs2, out1 @ out2)))"


section \<open>Rounding\<close>

lemma pow2_powi: "pow2 e = 2 powi e"
  by (simp add: pow2_def power_int_def inverse_eq_divide power_one_over)

lemma pow2_pos: "0 < pow2 e"
  by (simp add: pow2_powi)

lemma pow2_add: "pow2 (i + j) = pow2 i * pow2 j"
  by (simp add: pow2_powi power_int_add)

lemma pow2_mono: "i \<le> j \<Longrightarrow> pow2 i \<le> pow2 j"
  by (simp add: pow2_powi power_int_increasing)

lemma pow2_less_imp: "pow2 i < pow2 j \<Longrightarrow> i < j"
  using pow2_mono [of j i] by (cases "i < j") simp_all

lemma pow2_nat: "pow2 (int n) = 2 ^ n"
  by (simp add: pow2_def)

lemma ilog2_bounds:
  assumes "0 < a"
  shows "pow2 (ilog2 a) \<le> a \<and> a < pow2 (ilog2 a + 1)"
proof (cases "1 \<le> a")
  case True
  define n where "n = \<lfloor>a\<rfloor>"
  from True have n: "0 < n" by (simp add: n_def)
  then have b1: "1 \<le> bitlen n" by (simp add: bitlen_alt_def)
  from bitlen_bounds [OF n] have lo: "2 ^ nat (bitlen n - 1) \<le> n" and hi: "n < 2 ^ nat (bitlen n)"
    by simp_all
  have "pow2 (bitlen n - 1) = 2 ^ nat (bitlen n - 1)" using b1 by (simp add: pow2_def)
  also have "\<dots> \<le> real_of_int n" using lo by (metis of_int_le_iff of_int_numeral of_int_power)
  also have "\<dots> \<le> a" by (simp add: n_def)
  finally have l: "pow2 (bitlen n - 1) \<le> a" .
  have "n + 1 \<le> 2 ^ nat (bitlen n)" using hi by simp
  then have "real_of_int (n + 1) \<le> 2 ^ nat (bitlen n)"
    by (metis of_int_le_iff of_int_numeral of_int_power)
  moreover have "a < real_of_int (n + 1)" by (simp add: n_def)
  moreover have "pow2 (bitlen n - 1 + 1) = 2 ^ nat (bitlen n)" using b1 by (simp add: pow2_def)
  ultimately have h: "a < pow2 (bitlen n - 1 + 1)" by simp
  from l h True show ?thesis by (simp add: ilog2_def n_def)
next
  case False
  define c where "c = \<lceil>1 / a\<rceil>"
  from False assms have y: "1 < 1 / a" by simp
  then have c2: "2 \<le> c" unfolding c_def by (simp add: le_ceiling_iff)
  then have c1: "0 < c - 1" by simp
  define j where "j = bitlen (c - 1)"
  from c1 have j1: "1 \<le> j" by (simp add: j_def bitlen_alt_def)
  from bitlen_bounds [OF c1] have lo: "2 ^ nat (j - 1) \<le> c - 1" and hi: "c - 1 < 2 ^ nat j"
    by (simp_all add: j_def)
  from hi have "c \<le> 2 ^ nat j" by simp
  then have "real_of_int c \<le> 2 ^ nat j" by (metis of_int_le_iff of_int_numeral of_int_power)
  moreover have "1 / a \<le> real_of_int c" by (simp add: c_def)
  ultimately have "1 / a \<le> 2 ^ nat j" by linarith
  with assms have "1 / 2 ^ nat j \<le> a"
    by (simp add: field_simps)
  moreover have "pow2 (- j) = 1 / 2 ^ nat j" using j1 by (simp add: pow2_def)
  ultimately have l: "pow2 (- j) \<le> a" by simp
  have "real_of_int (c - 1) < 1 / a" unfolding c_def by linarith
  moreover from lo have "(2::real) ^ nat (j - 1) \<le> real_of_int (c - 1)"
    by (metis of_int_le_iff of_int_numeral of_int_power)
  ultimately have "2 ^ nat (j - 1) < 1 / a" by linarith
  with assms have "a < 1 / 2 ^ nat (j - 1)" by (simp add: field_simps)
  moreover have "pow2 (- j + 1) = 1 / 2 ^ nat (j - 1)"
    using j1 by (cases "j = 1") (simp_all add: pow2_def)
  ultimately have h: "a < pow2 (- j + 1)" by simp
  from l h False show ?thesis by (simp add: ilog2_def c_def j_def)
qed

lemma round_half_even_error: "\<bar>real_of_int (round_half_even y) - y\<bar> \<le> 1 / 2"
  unfolding round_half_even_def Let_def by (auto simp: abs_le_iff)

lemma round_half_even_int: "round_half_even (real_of_int n) = n"
  by (simp add: round_half_even_def)

lemma round64_normal:
  assumes "in_normal_range v"
  shows "\<exists>r. round64 v = Fin r \<and> \<bar>r - v\<bar> \<le> \<bar>v\<bar> / 2 ^ 53"
proof (cases "v = 0")
  case True
  then show ?thesis by (simp add: round64_def)
next
  case False
  define a where "a = \<bar>v\<bar>"
  define k where "k = ilog2 a"
  define e where "e = k - 52"
  define y where "y = a / pow2 e"
  define n where "n = round_half_even y"
  from False have apos: "0 < a" by (simp add: a_def)
  from assms False have lo: "pow2 (- 1022) \<le> a" and hi: "a \<le> pow2 1023"
    by (simp_all add: in_normal_range_def a_def)
  from ilog2_bounds [OF apos] have kl: "pow2 k \<le> a" and kh: "a < pow2 (k + 1)"
    by (simp_all add: k_def)
  from lo kh have "pow2 (- 1022) < pow2 (k + 1)" by linarith
  then have k1: "- 1022 \<le> k" using pow2_less_imp [of "- 1022" "k + 1"] by simp
  have k2: "k \<le> 1023"
  proof (rule ccontr)
    assume "\<not> k \<le> 1023"
    then have "1024 \<le> k" by simp
    from pow2_mono [OF this] kl hi have "pow2 1024 \<le> pow2 1023" by linarith
    then show False by (simp add: pow2_def)
  qed
  from k1 k2 have ee: "max (- 1074) (min 971 (ilog2 a - 52)) = e"
    by (simp add: e_def k_def)
  have split: "pow2 k = pow2 e * 2 ^ 52"
    using pow2_add [of e 52] by (simp add: e_def pow2_def)
  have ey: "a = y * pow2 e" using pow2_pos [of e] by (simp add: y_def)
  from round_half_even_error [of y] have ne: "\<bar>real_of_int n - y\<bar> \<le> 1 / 2" by (simp add: n_def)
  have "\<bar>real_of_int n * pow2 e - a\<bar> = \<bar>real_of_int n - y\<bar> * pow2 e"
    using pow2_pos [of e] by (simp add: ey abs_mult flip: left_diff_distrib)
  also have "\<dots> \<le> (1 / 2) * pow2 e"
    using ne pow2_pos [of e] by (intro mult_right_mono) simp_all
  also have "\<dots> \<le> a / 2 ^ 53"
    using kl split by simp
  finally have err: "\<bar>real_of_int n * pow2 e - a\<bar> \<le> a / 2 ^ 53" .
  have nooverflow: "\<not> (2 ^ 53 \<le> n \<and> e = 971)"
  proof
    assume c: "2 ^ 53 \<le> n \<and> e = 971"
    then have "k = 1023" by (simp add: e_def)
    with kl hi have "a = pow2 1023" by simp
    then have "y = 2 ^ 52" using c by (simp add: y_def pow2_def)
    then have "y = real_of_int (2 ^ 52)" by simp
    then have "n = 2 ^ 52" unfolding n_def by (simp only: round_half_even_int)
    with c show False by simp
  qed
  have r: "round64 v = Fin (sgn v * (real_of_int n * pow2 e))"
    using False nooverflow ee
    by (simp add: round64_def Let_def a_def [symmetric] y_def [symmetric] n_def [symmetric])
  have "\<bar>sgn v * (real_of_int n * pow2 e) - v\<bar> = \<bar>real_of_int n * pow2 e - a\<bar>"
  proof (cases "0 < v")
    case True
    then show ?thesis by (simp add: a_def)
  next
    case neg: False
    with False have "v < 0" by simp
    then show ?thesis by (simp add: a_def)
  qed
  with err r show ?thesis by (simp add: a_def)
qed


lemma ilog2_two_power: "ilog2 (2 ^ n) = int n"
proof -
  have "\<lfloor>(2::real) ^ n\<rfloor> = 2 ^ n"
    by (metis floor_of_int of_int_numeral of_int_power)
  moreover have "bitlen (2 ^ n) = int n + 1"
    using bitlen_twopow_add_eq [of 0 n] by simp
  ultimately show ?thesis by (simp add: ilog2_def)
qed

lemma round64_overflow: "round64 (2 ^ 1024) = NonFinite"
proof -
  have e: "max (- 1074) (min 971 (ilog2 (2 ^ 1024) - 52)) = 971"
    by (simp only: ilog2_two_power)
  have "(2::real) ^ 1024 / pow2 971 = 2 ^ 53"
    by (simp add: pow2_def)
  then have "(2::real) ^ 1024 / pow2 971 = real_of_int (2 ^ 53)" by simp
  then have n: "round_half_even (2 ^ 1024 / pow2 971) = 2 ^ 53"
    by (simp only: round_half_even_int)
  have "\<bar>(2::real) ^ 1024\<bar> = 2 ^ 1024" by simp
  with e n show ?thesis
    by (simp add: round64_def Let_def del: power_numeral)
qed


section \<open>Normalization\<close>

lemma normalize_forward:
  "normalize_data data [mean, scale] False
     = Inr (array_map (elem_div scale) (array_map (elem_sub mean) data))"
  by (simp add: normalize_data_def py_index_def)

lemma normalize_reverse:
  "normalize_data data [mean, scale] True
     = Inr (array_map (elem_add mean) (array_map (elem_mul scale) data))"
  by (simp add: normalize_data_def py_index_def)

lemma normalize_round_trip_elems:
  "normalize_round_trip data [mean, scale]
     = Inr (NDArray (shape data)
              (map (\<lambda>e. elem_add mean (elem_mul scale (elem_div scale (elem_sub mean e))))
                 (elems data)))"
  by (simp add: normalize_round_trip_def normalize_forward normalize_reverse array_map_def)

lemma in_normal_range_moderate:
  assumes "1 \<le> \<bar>v\<bar>" and "\<bar>v\<bar> \<le> 2 ^ 1000"
  shows "in_normal_range v"
proof -
  have "pow2 (- 1022) \<le> pow2 0" by (rule pow2_mono) simp
  then have "pow2 (- 1022) \<le> 1" by (simp add: pow2_def)
  moreover have "pow2 (int 1000) \<le> pow2 1023" by (rule pow2_mono) simp
  then have "2 ^ 1000 \<le> pow2 1023" by (simp only: pow2_nat)
  ultimately show ?thesis using assms by (simp add: in_normal_range_def)
qed

lemma four_roundings:
  fixes t1 t2 t3 t4 D A B C X R :: real
  assumes "t1 * 2 ^ 53 \<le> D" "A \<le> D + t1" "t2 * 2 ^ 53 \<le> A" "B \<le> A + t2"
    "t3 * 2 ^ 53 \<le> B" "C \<le> X + t1 + t2 + t3" "t4 * 2 ^ 53 \<le> C"
    "R \<le> t1 + t2 + t3 + t4" "0 \<le> D" "0 \<le> X"
  shows "R * 2 ^ 51 \<le> D + X"
  using assms by simp

lemma round_trip_elem_error:
  assumes scale: "scale \<noteq> 0"
    and range: "round_trip_in_range mean scale (Fin x)"
  shows "close_to mean (Fin x)
           (elem_add mean (elem_mul scale (elem_div scale (elem_sub mean (Fin x)))))"
proof -
  from range have "in_normal_range (x - mean)"
    by (simp add: round_trip_in_range_def)
  from round64_normal [OF this] obtain a where
    a: "round64 (x - mean) = Fin a" and ea: "\<bar>a - (x - mean)\<bar> \<le> \<bar>x - mean\<bar> / 2 ^ 53"
    by blast
  from range a have "in_normal_range (a / scale)"
    by (simp add: round_trip_in_range_def)
  from round64_normal [OF this] obtain b where
    b: "round64 (a / scale) = Fin b" and eb: "\<bar>b - a / scale\<bar> \<le> \<bar>a / scale\<bar> / 2 ^ 53"
    by blast
  define bs where "bs = b * scale"
  from range a b scale have "in_normal_range bs"
    by (simp add: round_trip_in_range_def bs_def)
  from round64_normal [OF this] obtain c where
    c: "round64 bs = Fin c" and ec: "\<bar>c - bs\<bar> \<le> \<bar>bs\<bar> / 2 ^ 53"
    by blast
  from range a b c scale have "in_normal_range (c + mean)"
    by (simp add: round_trip_in_range_def bs_def)
  from round64_normal [OF this] obtain r where
    r: "round64 (c + mean) = Fin r" and er: "\<bar>r - (c + mean)\<bar> \<le> \<bar>c + mean\<bar> / 2 ^ 53"
    by blast
  have result: "elem_add mean (elem_mul scale (elem_div scale (elem_sub mean (Fin x)))) = Fin r"
    using a b c r scale by (simp add: bs_def)
  have "\<bar>bs - a\<bar> = \<bar>b - a / scale\<bar> * \<bar>scale\<bar>"
    using scale by (simp add: bs_def left_diff_distrib flip: abs_mult)
  also have "\<dots> \<le> (\<bar>a / scale\<bar> / 2 ^ 53) * \<bar>scale\<bar>"
    using eb by (intro mult_right_mono) simp_all
  also have "\<dots> = \<bar>a\<bar> / 2 ^ 53"
    using scale by (simp add: abs_divide)
  finally have ebs: "\<bar>bs - a\<bar> \<le> \<bar>a\<bar> / 2 ^ 53" .
  have h1: "\<bar>a - (x - mean)\<bar> * 2 ^ 53 \<le> \<bar>x - mean\<bar>"
    using ea by (simp add: field_simps)
  have ha: "\<bar>a\<bar> \<le> \<bar>x - mean\<bar> + \<bar>a - (x - mean)\<bar>" by linarith
  have h2: "\<bar>bs - a\<bar> * 2 ^ 53 \<le> \<bar>a\<bar>"
    using ebs by (simp add: field_simps)
  have hb: "\<bar>bs\<bar> \<le> \<bar>a\<bar> + \<bar>bs - a\<bar>" by linarith
  have h3: "\<bar>c - bs\<bar> * 2 ^ 53 \<le> \<bar>bs\<bar>"
    using ec by (simp add: field_simps)
  have hc: "\<bar>c + mean\<bar> \<le> \<bar>x\<bar> + \<bar>a - (x - mean)\<bar> + \<bar>bs - a\<bar> + \<bar>c - bs\<bar>" by linarith
  have h4: "\<bar>r - (c + mean)\<bar> * 2 ^ 53 \<le> \<bar>c + mean\<bar>"
    using er by (simp add: field_simps)
  have hr: "\<bar>r - x\<bar> \<le> \<bar>a - (x - mean)\<bar> + \<bar>bs - a\<bar> + \<bar>c - bs\<bar> + \<bar>r - (c + mean)\<bar>"
    by linarith
  have "\<bar>r - x\<bar> * 2 ^ 51 \<le> \<bar>x - mean\<bar> + \<bar>x\<bar>"
    by (rule four_roundings [OF h1 ha h2 hb h3 hc h4 hr]) simp_all
  then have "\<bar>r - x\<bar> \<le> (\<bar>x - mean\<bar> + \<bar>x\<bar>) / 2 ^ 51"
    by (simp add: field_simps)
  with result show ?thesis by (simp add: close_to_def)
qed

lemma round64_six: "round64 6 = Fin 6"
  by code_simp

lemma round64_seven: "round64 7 = Fin 7"
  by code_simp

text \<open>Overflow: on the array \<open>[2 ^ 1023]\<close> with \<open>mean = - 2 ^ 1023\<close> the subtraction is
  \<open>2 ^ 1024\<close>, which is \<open>inf\<close>, and stays so.\<close>

lemma normalize_round_trip_overflows:
  "normalize_round_trip (NDArray [1] [Fin (2 ^ 1023)]) [- (2 ^ 1023), 1]
     = Inr (NDArray [1] [NonFinite])"
proof -
  have "(2::real) ^ 1023 - - (2 ^ 1023) = 2 ^ 1024" by simp
  then have "elem_sub (- (2 ^ 1023)) (Fin (2 ^ 1023)) = NonFinite"
    by (simp only: elem_sub.simps round64_overflow)
  then show ?thesis
    by (simp only: normalize_round_trip_elems ndarray.sel list.map elem_div.simps
          elem_mul.simps elem_add.simps)
qed

text \<open>
  C5, as the claim has it: on a finite array and with a scale other than zero the
  round trip returns the original array, to within floating-point tolerance. On the
  array \<open>[1.0]\<close> with \<open>mean = 1e17\<close> and \<open>scale = 1.0\<close> the subtraction rounds
  \<open>1 - 1e17\<close> to \<open>-1e17\<close> and the round trip returns \<open>[0.0]\<close>, which is not within
  a relative tolerance of one half of \<open>[1.0]\<close>.
\<close>

theorem normalize_round_trip_absorbs:
  "normalize_round_trip (NDArray [1] [Fin 1]) [10 ^ 17, 1] = Inr (NDArray [1] [Fin 0])
   \<and> list_all is_finite (elems (NDArray [1] [Fin 1]))
   \<and> \<not> list_all2 (within_tolerance (1 / 2)) (elems (NDArray [1] [Fin 1]))
          (elems (NDArray [1] [Fin 0]))"
  by code_simp

text \<open>
  C5, amended. With a scale other than zero, on an array of finite elements for
  which no operation of the round trip overflows or underflows, \<open>normalize_data\<close>
  followed by \<open>normalize_data\<close> with \<open>reverse=True\<close> and the same coefficients
  \<open>[mean, scale]\<close> returns an array of the same shape in which every element \<open>r\<close>
  is finite and differs from the element \<open>x\<close> it came from by at most
  \<open>2 ^ -51 * (\<bar>x - mean\<bar> + \<bar>x\<bar>)\<close>.
\<close>

theorem normalize_round_trip_tolerance:
  assumes scale: "scale \<noteq> 0"
    and range: "list_all (round_trip_in_range mean scale) (elems data)"
  shows "\<exists>b. normalize_round_trip data [mean, scale] = Inr b
            \<and> shape b = shape data
            \<and> list_all2 (close_to mean) (elems data) (elems b)"
proof -
  let ?g = "\<lambda>e. elem_add mean (elem_mul scale (elem_div scale (elem_sub mean e)))"
  have "close_to mean e (?g e)" if "e \<in> set (elems data)" for e
  proof -
    from range that have r: "round_trip_in_range mean scale e" by (simp add: list_all_iff)
    then obtain x where "e = Fin x" by (cases e) (simp_all add: round_trip_in_range_def)
    with r round_trip_elem_error [OF scale] show ?thesis by simp
  qed
  then have "list_all2 (close_to mean) (elems data) (map ?g (elems data))"
    by (simp add: list_all2_map2 list_all2_same)
  then show ?thesis by (simp add: normalize_round_trip_elems)
qed

theorem normalize_round_trip_tolerance_witness:
  "(1::real) \<noteq> 0
   \<and> list_all (round_trip_in_range (10 ^ 17) 1) (elems (NDArray [2] [Fin 1, Fin 3]))
   \<and> (\<exists>b. normalize_round_trip (NDArray [2] [Fin 1, Fin 3]) [10 ^ 17, 1] = Inr b
          \<and> shape b = shape (NDArray [2] [Fin 1, Fin 3])
          \<and> list_all2 (close_to (10 ^ 17)) (elems (NDArray [2] [Fin 1, Fin 3])) (elems b))"
proof -
  have s1: "round64 (- 99999999999999999) = Fin (- 100000000000000000)" by code_simp
  have s3: "round64 (- 99999999999999997) = Fin (- 100000000000000000)" by code_simp
  have s0: "round64 (- 100000000000000000) = Fin (- 100000000000000000)" by code_simp
  have n1: "in_normal_range (- 99999999999999999)" by (rule in_normal_range_moderate) simp_all
  have n3: "in_normal_range (- 99999999999999997)" by (rule in_normal_range_moderate) simp_all
  have n0: "in_normal_range (- 100000000000000000)" by (rule in_normal_range_moderate) simp_all
  have z: "in_normal_range 0" by (simp add: in_normal_range_def)
  have r: "list_all (round_trip_in_range (10 ^ 17) 1) (elems (NDArray [2] [Fin 1, Fin 3]))"
    by (simp add: round_trip_in_range_def s1 s3 s0 n1 n3 n0 z)
  from normalize_round_trip_tolerance [of 1 "10 ^ 17" "NDArray [2] [Fin 1, Fin 3]"] r
  show ?thesis by simp
qed


section \<open>Loading parameters\<close>

lemma networks_list_empty:
  assumes "\<forall>f \<in> set (listdir d). isfile d f \<longrightarrow> \<not> contains ''network_'' f \<and> \<not> contains ''networks.'' f"
  shows "networks_list d = []"
proof -
  have "filter (\<lambda>f. isfile d f \<and> contains ''network_'' f) (listdir d) = []"
    using assms by (auto simp: filter_empty_conv)
  moreover have "filter (\<lambda>f. isfile d f \<and> contains ''networks.'' f) (listdir d) = []"
    using assms by (auto simp: filter_empty_conv)
  ultimately show ?thesis by (simp add: networks_list_def)
qed

lemma load_network_errors:
  "load_network m w fs = Inl e \<Longrightarrow> e = FileNotFoundError \<or> e = IndexError \<or> e = IsADirectoryError"
  by (auto simp: load_network_def load_parameters_def read_file_def py_index_def Let_def
           split: option.splits sum.splits entry.splits if_splits prod.splits)

lemma load_network_keeps:
  "load_network m w fs = Inr (m', out) \<Longrightarrow>
     is_training m' = is_training m \<and> network_dir m' = network_dir m"
  by (auto simp: load_network_def load_parameters_def Let_def
           split: option.splits sum.splits if_splits prod.splits)

text \<open>
  C6, as the claim has it: \<open>load_network\<close> on a network directory without a saved
  parameter set fails with a \<open>LookupError\<close>. On the empty directory of the session
  \<open>sessions/default\<close> the exception is not a \<open>LookupError\<close>.
\<close>

theorem load_network_empty_not_LookupError:
  "\<not> raises_LookupError
        (load_network (example_manager 2 False (NDArray [1, 1] [Fin 3])) (- 1)
           (example_filesystem []))"
  by code_simp

text \<open>
  C6, amended. \<open>load_network\<close> on a network directory in which no file has
  \<open>network_\<close> or \<open>networks.\<close> in its name fails at once with the
  \<open>FileNotFoundError\<close> the source raises, whatever \<open>which_network\<close> is.
\<close>

theorem load_network_empty:
  assumes "fs (network_dir m) = Some d"
    and "\<forall>f \<in> set (listdir d). isfile d f \<longrightarrow> \<not> contains ''network_'' f \<and> \<not> contains ''networks.'' f"
  shows "load_network m which_network fs = Inl FileNotFoundError"
  using assms(1) networks_list_empty [OF assms(2)] by (simp add: load_network_def)

theorem load_network_empty_witness:
  "example_filesystem [(''backup_network.pth'', File 7), (''old'', Folder)]
       (network_dir (example_manager 2 False (NDArray [1, 1] [Fin 3])))
     = Some [(''backup_network.pth'', File 7), (''old'', Folder)]
   \<and> list_all (\<lambda>f. \<not> contains ''network_'' f \<and> \<not> contains ''networks.'' f)
        (filter (isfile [(''backup_network.pth'', File (7::nat)), (''old'', Folder)])
           (listdir [(''backup_network.pth'', File (7::nat)), (''old'', Folder)]))
   \<and> load_network (example_manager 2 False (NDArray [1, 1] [Fin 3])) 0
        (example_filesystem [(''backup_network.pth'', File 7), (''old'', Folder)])
       = Inl FileNotFoundError"
proof -
  have a: "example_filesystem [(''backup_network.pth'', File 7), (''old'', Folder)]
       (network_dir (example_manager 2 False (NDArray [1, 1] [Fin 3])))
     = Some [(''backup_network.pth'', File 7), (''old'', Folder)]"
    by (simp add: example_filesystem_def example_manager_def)
  have b: "\<forall>f \<in> set (listdir [(''backup_network.pth'', File (7::nat)), (''old'', Folder)]).
         isfile [(''backup_network.pth'', File (7::nat)), (''old'', Folder)] f
           \<longrightarrow> \<not> contains ''network_'' f \<and> \<not> contains ''networks.'' f"
    by (simp add: listdir_def isfile_def)
  have c: "list_all (\<lambda>f. \<not> contains ''network_'' f \<and> \<not> contains ''networks.'' f)
        (filter (isfile [(''backup_network.pth'', File (7::nat)), (''old'', Folder)])
           (listdir [(''backup_network.pth'', File (7::nat)), (''old'', Folder)]))"
    by (simp add: listdir_def isfile_def)
  from a b c
    load_network_empty
      [of "example_filesystem [(''backup_network.pth'', File 7), (''old'', Folder)]"
          "example_manager 2 False (NDArray [1, 1] [Fin 3])"
          "[(''backup_network.pth'', File 7), (''old'', Folder)]" 0]
  show ?thesis by blast
qed

text \<open>
  C2. With two snapshots in the directory, \<open>which_network = 2\<close> is out of range of the
  list of saved networks. The guard \<open>which_network > len(networks_list)\<close> lets it
  through and the load fails with \<open>IndexError\<close>; from \<open>which_network = 3\<close> on, the
  warning is printed and the last snapshot is loaded.
\<close>

theorem load_network_index_equal_to_length:
  "loaded (load_network (example_manager 2 False (NDArray [1, 1] [Fin 3])) 2
             (example_filesystem [(''default_network_1.pth'', File 1),
                                  (''default_network_2.pth'', File 2)]))
     = Inl IndexError
   \<and> loaded (load_network (example_manager 2 False (NDArray [1, 1] [Fin 3])) 3
             (example_filesystem [(''default_network_1.pth'', File 1),
                                  (''default_network_2.pth'', File 2)]))
     = Inr (2, [FallbackWarning 0,
                LoadingFrom ''sessions/default/networks/default_network_2.pth''])"
  by code_simp


section \<open>Saving parameters\<close>

text \<open>
  C1. With \<open>save_every_epoch = 2\<close> and an empty network directory, the first
  intermediate save (the counter becomes 1, not a multiple of 2) writes the numbered
  snapshot \<open>default_network_1\<close>, and the second (the counter becomes 2, a multiple of 2)
  writes \<open>backup_network\<close>: the test \<open>saved_counter % save_every_epoch\<close> selects the
  numbered snapshot when the remainder is not zero. With \<open>save_every_epoch = 0\<close> both
  saves write \<open>backup_network\<close> only.
\<close>

theorem save_network_cadence_two:
  "saved (save_network (example_manager 2 True (NDArray [1, 1] [Fin 3])) False
            (example_filesystem [])) ''sessions/default/networks''
     = Inr (1, Some [(''default_network_1.pth'', File 7)],
            [SavingIntermediate ''sessions/default/networks/default_network_1''])
   \<and> saved (save_twice (example_manager 2 True (NDArray [1, 1] [Fin 3]))
            (example_filesystem [])) ''sessions/default/networks''
     = Inr (2, Some [(''default_network_1.pth'', File 7), (''backup_network.pth'', File 7)],
            [SavingIntermediate ''sessions/default/networks/default_network_1''])
   \<and> saved (save_twice (example_manager 0 True (NDArray [1, 1] [Fin 3]))
            (example_filesystem [])) ''sessions/default/networks''
     = Inr (0, Some [(''backup_network.pth'', File 7)], [])"
  by code_simp


section \<open>Construction\<close>

text \<open>
  C7. Constructing the manager for the pipeline \<open>training\<close> with a configuration that
  does not supply both a loss and an optimizer fails with the \<open>ValueError\<close> of the
  constructor; for any other pipeline the constructor does not raise it.
\<close>

theorem init_training_requires_loss_and_optimizer:
  "(pipeline = ''training'' \<and> \<not> (has_loss cfg \<and> has_optimizer cfg)
      \<longrightarrow> init utils cfg pipeline session_path new fs = Inl ValueError)
   \<and> (pipeline \<noteq> ''training''
      \<longrightarrow> init utils cfg pipeline session_path new fs \<noteq> Inl ValueError)"
proof (intro conjI impI)
  assume "pipeline = ''training'' \<and> \<not> (has_loss cfg \<and> has_optimizer cfg)"
  then show "init utils cfg pipeline session_path new fs = Inl ValueError"
    by (simp add: init_def training_stuff_def)
next
  assume np: "pipeline \<noteq> ''training''"
  show "init utils cfg pipeline session_path new fs \<noteq> Inl ValueError"
  proof
    assume "init utils cfg pipeline session_path new fs = Inl ValueError"
    with np obtain m w where "load_network m w fs = Inl ValueError"
      by (auto simp: init_def Let_def split: sum.splits)
    then show False by (auto dest: load_network_errors)
  qed
qed

theorem init_training_requires_loss_and_optimizer_witness:
  "init example_utils (example_config True False) ''training'' ''sessions/default'' True
       (example_filesystem []) = Inl ValueError
   \<and> init example_utils (example_config True False) ''prediction'' ''sessions/default'' True
       (example_filesystem []) \<noteq> Inl ValueError"
  using init_training_requires_loss_and_optimizer
          [of "''training''" "example_config True False" example_utils "''sessions/default''" True
              "example_filesystem []"]
        init_training_requires_loss_and_optimizer
          [of "''prediction''" "example_config True False" example_utils "''sessions/default''" True
              "example_filesystem []"]
  by (simp add: example_config_def)

lemma init_is_training:
  assumes "init utils cfg pipeline session_path new fs = Inr (m, fs1, out)"
  shows "is_training m = (pipeline = ''training'')"
  using assms
  by (auto simp: init_def Let_def split: if_splits sum.splits prod.splits dest!: load_network_keeps)


section \<open>Writing files\<close>

lemma map_of_overwrite:
  "map_of d f = Some e \<Longrightarrow> map_of (map (\<lambda>e. if fst e = f then (f, v) else e) d) f = Some v"
  by (induction d) (auto split: if_splits)

lemma map_of_overwrite_other:
  "g \<noteq> f \<Longrightarrow> map_of (map (\<lambda>e. if fst e = f then (f, v) else e) d) g = map_of d g"
  by (induction d) auto

lemma write_file_lookup:
  "write_file d f p = Inr d' \<Longrightarrow> map_of d' f = Some (File p)"
  unfolding write_file_def
  by (cases "map_of d f") (auto simp: map_of_overwrite map_add_def split: entry.splits)

lemma write_file_other:
  "write_file d f p = Inr d' \<Longrightarrow> g \<noteq> f \<Longrightarrow> map_of d' g = map_of d g"
  unfolding write_file_def
  by (cases "map_of d f") (auto simp: map_of_overwrite_other map_add_def split: entry.splits option.splits)

lemma write_file_succeeds:
  "map_of d f \<noteq> Some Folder \<Longrightarrow> \<exists>d'. write_file d f p = Inr d'"
  unfolding write_file_def
  by (cases "map_of d f") (auto split: entry.splits)

lemma save_network_last:
  "fs (network_dir m) = Some d \<Longrightarrow>
   write_file d (''networks'' @ extension (network m)) (parameters (network m)) = Inr d' \<Longrightarrow>
   save_network m True fs = Inr (m, fs(network_dir m \<mapsto> d'), [SavingFinal (network_dir m)])"
  by (simp add: save_network_def save_parameters_def)

text \<open>What an intermediate save writes, whatever the state: the numbered snapshot when
  a cadence is set and the new counter is not a multiple of it, \<open>backup_network\<close>
  otherwise.\<close>

lemma save_network_intermediate:
  assumes "save_network m False fs = Inr (m', fs', out)"
  shows "\<exists>d'. fs' (network_dir m) = Some d'
           \<and> map_of d'
                ((if 0 < save_every_epoch m
                     \<and> (saved_counter m + 1) mod save_every_epoch m \<noteq> 0
                  then format_template (network_template_name m) (saved_counter m + 1)
                  else ''backup_network'') @ extension (network m))
               = Some (File (parameters (network m)))"
proof -
  from assms obtain d d1 where d: "fs (network_dir m) = Some d"
    and r: "remove_all d (filter (contains ''backup'') (listdir d)) = Inr d1"
    by (auto simp: save_network_def split: option.splits sum.splits)
  show ?thesis
  proof (cases "0 < save_every_epoch m \<and> (saved_counter m + 1) mod save_every_epoch m \<noteq> 0")
    case True
    with assms d r obtain d2 where
      "write_file d1 (format_template (network_template_name m) (saved_counter m + 1) @ extension (network m))
         (parameters (network m)) = Inr d2" and "fs' = fs(network_dir m \<mapsto> d2)"
      by (auto simp: save_network_def save_parameters_def Let_def split: sum.splits)
    with True write_file_lookup show ?thesis by fastforce
  next
    case False
    with assms d r obtain d2 where
      "write_file d1 (''backup_network'' @ extension (network m)) (parameters (network m)) = Inr d2"
      and "fs' = fs(network_dir m \<mapsto> d2)"
      by (auto simp: save_network_def save_parameters_def Let_def split: sum.splits if_splits)
    with False write_file_lookup show ?thesis by fastforce
  qed
qed


section \<open>Closing\<close>

text \<open>
  C10. For a manager that the constructor returned, \<open>close\<close> is the final save exactly
  when the pipeline was \<open>training\<close>: then it writes the current parameters to the
  file \<open>networks\<close> of the network directory (with the network's extension) and leaves
  every other entry as it was; for any other pipeline it writes nothing, prints
  nothing and leaves the file system as it is.
\<close>

theorem close_saves_iff_training:
  assumes "init utils cfg pipeline session_path new fs = Inr (m, fs1, out)"
  shows "(pipeline = ''training'' \<longrightarrow>
            close m fs2 = save_network m True fs2
          \<and> (\<forall>d. fs2 (network_dir m) = Some d
                  \<and> map_of d (''networks'' @ extension (network m)) \<noteq> Some Folder
               \<longrightarrow> (\<exists>d'. close m fs2 = Inr (m, fs2(network_dir m \<mapsto> d'), [SavingFinal (network_dir m)])
                      \<and> map_of d' (''networks'' @ extension (network m))
                          = Some (File (parameters (network m)))
                      \<and> (\<forall>g. g \<noteq> ''networks'' @ extension (network m) \<longrightarrow> map_of d' g = map_of d g))))
       \<and> (pipeline \<noteq> ''training'' \<longrightarrow> close m fs2 = Inr (m, fs2, []))"
proof (intro conjI impI allI)
  assume "pipeline = ''training''"
  then show "close m fs2 = save_network m True fs2"
    using init_is_training [OF assms] by (simp add: close_def)
next
  fix d
  assume tr: "pipeline = ''training''"
    and d: "fs2 (network_dir m) = Some d
            \<and> map_of d (''networks'' @ extension (network m)) \<noteq> Some Folder"
  from d have "map_of d (''networks'' @ extension (network m)) \<noteq> Some Folder" by simp
  from write_file_succeeds [OF this]
  obtain d' where w: "write_file d (''networks'' @ extension (network m)) (parameters (network m)) = Inr d'"
    by blast
  from d have dd: "fs2 (network_dir m) = Some d" by simp
  have c: "close m fs2 = Inr (m, fs2(network_dir m \<mapsto> d'), [SavingFinal (network_dir m)])"
    using tr init_is_training [OF assms] save_network_last [of fs2 m d d', OF dd w]
    by (simp add: close_def)
  have l: "map_of d' (''networks'' @ extension (network m)) = Some (File (parameters (network m)))"
    by (rule write_file_lookup [OF w])
  have o: "\<forall>g. g \<noteq> ''networks'' @ extension (network m) \<longrightarrow> map_of d' g = map_of d g"
    using write_file_other [OF w] by simp
  from c l o
  show "\<exists>d'. close m fs2 = Inr (m, fs2(network_dir m \<mapsto> d'), [SavingFinal (network_dir m)])
                      \<and> map_of d' (''networks'' @ extension (network m))
                          = Some (File (parameters (network m)))
                      \<and> (\<forall>g. g \<noteq> ''networks'' @ extension (network m) \<longrightarrow> map_of d' g = map_of d g)"
    by (intro exI [of _ d'] conjI)
next
  assume "pipeline \<noteq> ''training''"
  then show "close m fs2 = Inr (m, fs2, [])"
    using init_is_training [OF assms] by (simp add: close_def)
qed

theorem close_saves_iff_training_witness:
  "init example_utils (example_config True True) ''training'' ''sessions/default'' True
       (example_filesystem [])
     = Inr (example_manager 2 True (NDArray [1, 1] [Fin 3]),
            (example_filesystem [])(''sessions/default/networks'' \<mapsto> []), [])
   \<and> close (example_manager 2 True (NDArray [1, 1] [Fin 3])) (example_filesystem [])
     = save_network (example_manager 2 True (NDArray [1, 1] [Fin 3])) True (example_filesystem [])
   \<and> init example_utils (example_config True True) ''prediction'' ''sessions/default'' True
       (prediction_filesystem [(''default_network_1.pth'', File 1)])
     = Inr ((example_manager 2 False (NDArray [1, 1] [Fin 3]))
              \<lparr>network_dir := ''sessions/default/networks/'',
               network := (example_network (NDArray [1, 1] [Fin 3]))\<lparr>parameters := 1\<rparr>\<rparr>,
            prediction_filesystem [(''default_network_1.pth'', File 1)],
            [LoadingFrom ''sessions/default/networks/default_network_1.pth''])
   \<and> close ((example_manager 2 False (NDArray [1, 1] [Fin 3]))
              \<lparr>network_dir := ''sessions/default/networks/'',
               network := (example_network (NDArray [1, 1] [Fin 3]))\<lparr>parameters := 1\<rparr>\<rparr>)
        (prediction_filesystem [(''default_network_1.pth'', File 1)])
     = Inr ((example_manager 2 False (NDArray [1, 1] [Fin 3]))
              \<lparr>network_dir := ''sessions/default/networks/'',
               network := (example_network (NDArray [1, 1] [Fin 3]))\<lparr>parameters := 1\<rparr>\<rparr>,
            prediction_filesystem [(''default_network_1.pth'', File 1)], [])"
proof -
  have a: "init example_utils (example_config True True) ''training'' ''sessions/default'' True
       (example_filesystem [])
     = Inr (example_manager 2 True (NDArray [1, 1] [Fin 3]),
            (example_filesystem [])(''sessions/default/networks'' \<mapsto> []), [])"
    by (simp add: init_def example_utils_def example_config_def example_manager_def
          training_stuff_def join_def last_component_def)
  have b: "init example_utils (example_config True True) ''prediction'' ''sessions/default'' True
       (prediction_filesystem [(''default_network_1.pth'', File 1)])
     = Inr ((example_manager 2 False (NDArray [1, 1] [Fin 3]))
              \<lparr>network_dir := ''sessions/default/networks/'',
               network := (example_network (NDArray [1, 1] [Fin 3]))\<lparr>parameters := 1\<rparr>\<rparr>,
            prediction_filesystem [(''default_network_1.pth'', File 1)],
            [LoadingFrom ''sessions/default/networks/default_network_1.pth''])"
    by (simp add: init_def example_utils_def example_config_def example_manager_def
          training_stuff_def join_def last_component_def load_network_def prediction_filesystem_def
          networks_list_def listdir_def isfile_def py_index_def load_parameters_def read_file_def)
  from close_saves_iff_training [OF a, of "example_filesystem []"]
       close_saves_iff_training [OF b, of "prediction_filesystem [(''default_network_1.pth'', File 1)]"]
       a b
  show ?thesis by simp
qed


section \<open>Sizing the Exchange table\<close>

lemma add_data_empty:
  "add_data True [] db
     = Inr (int (length (rows (exchange db))),
            db\<lparr>exchange := (exchange db)\<lparr>rows := rows (exchange db) @ [Map.empty]\<rparr>\<rparr>)"
  by (simp add: add_data_def select_table_def store_table_def Let_def)

lemma add_clients_rows:
  "\<exists>db'. add_clients n db = Inr db'
        \<and> rows (exchange db') = rows (exchange db) @ replicate n Map.empty
        \<and> schema (exchange db') = schema (exchange db)"
proof (induction n arbitrary: db)
  case 0
  then show ?case by simp
next
  case (Suc n)
  define db1 where "db1 = db\<lparr>exchange := (exchange db)\<lparr>rows := rows (exchange db) @ [Map.empty]\<rparr>\<rparr>"
  from Suc.IH [of db1] obtain db' where
    a: "add_clients n db1 = Inr db'"
    and r: "rows (exchange db') = rows (exchange db1) @ replicate n Map.empty"
    and s: "schema (exchange db') = schema (exchange db1)"
    by blast
  have "add_clients (Suc n) db = Inr db'"
    using a by (simp add: add_data_empty db1_def)
  moreover have "rows (exchange db') = rows (exchange db) @ replicate (Suc n) Map.empty"
    using r by (simp add: db1_def)
  moreover have "schema (exchange db') = schema (exchange db)"
    using s by (simp add: db1_def)
  ultimately show ?case by blast
qed

lemma create_fields_exchange:
  "create_fields fs True db = Inr db' \<Longrightarrow>
     rows (exchange db) = [] \<and> rows (exchange db') = []
     \<and> schema (exchange db') = schema (exchange db) @ fs"
  by (auto simp: create_fields_def select_table_def store_table_def Let_def split: if_splits)

lemma create_fields_fresh:
  "rows (exchange db) = [] \<Longrightarrow> \<exists>db'. create_fields fs True db = Inr db'"
  by (simp add: create_fields_def select_table_def Let_def)

lemma update_exchange_rows:
  "update ''Exchange'' data line db = Inr db' \<Longrightarrow>
     0 \<le> line \<and> nat line < length (rows (exchange db))
     \<and> rows (exchange db')
         = (rows (exchange db))[nat line := (rows (exchange db) ! nat line) ++ map_of data]"
  by (auto simp: update_def select_table_def store_table_def Let_def split: if_splits)

lemma compute_online_prediction_steps:
  assumes "compute_online_prediction m i n db = Inr db'"
  shows "\<exists>sample data_pred.
           online_sample m i (case n of None \<Rightarrow> [] | Some c \<Rightarrow> c) db = Inr sample
         \<and> return_prediction (pred_norm_fields (network m)) (case n of None \<Rightarrow> [] | Some c \<Rightarrow> c)
              (network_output m sample) = Inr data_pred
         \<and> update ''Exchange'' data_pred i db = Inr db'"
  using assms unfolding compute_online_prediction_def Let_def
  by (simp split: sum.splits)

lemma compute_online_prediction_row_count:
  assumes "compute_online_prediction m i n db = Inr db'"
  shows "length (rows (exchange db')) = length (rows (exchange db))"
proof -
  from compute_online_prediction_steps [OF assms] obtain data_pred where
    "update ''Exchange'' data_pred i db = Inr db'" by blast
  from update_exchange_rows [OF this] show ?thesis by simp
qed

text \<open>
  What \<open>link_clients\<close> leaves in the store, for a worker count \<open>n \<ge> 0\<close>: on a store
  whose Exchange table has no row yet it returns, and whenever it returns the
  Exchange table holds the registered network fields and exactly \<open>n\<close> rows, all
  empty.
\<close>

lemma link_clients_rows:
  assumes "0 \<le> n"
  shows "(rows (exchange db) = [] \<longrightarrow> (\<exists>db1. link_clients m (Some n) db = Inr db1))
       \<and> (\<forall>db1. link_clients m (Some n) db = Inr db1 \<longrightarrow>
             rows (exchange db1) = replicate (nat n) Map.empty
           \<and> int (length (rows (exchange db1))) = n
           \<and> schema (exchange db1)
               = schema (exchange db) @ net_fields (network m) @ pred_fields (network m))"
proof (intro conjI impI allI)
  assume "rows (exchange db) = []"
  then obtain db0 where
    c: "create_fields (net_fields (network m) @ pred_fields (network m)) True db = Inr db0"
    using create_fields_fresh by blast
  from add_clients_rows [of "nat n" db0] obtain db1 where "add_clients (nat n) db0 = Inr db1"
    by blast
  with c have "link_clients m (Some n) db = Inr db1" by (simp add: link_clients_def)
  then show "\<exists>db1. link_clients m (Some n) db = Inr db1" ..
next
  fix db1
  assume l: "link_clients m (Some n) db = Inr db1"
  then obtain db0 where
    c: "create_fields (net_fields (network m) @ pred_fields (network m)) True db = Inr db0"
    and a: "add_clients (nat n) db0 = Inr db1"
    by (cases "create_fields (net_fields (network m) @ pred_fields (network m)) True db")
       (simp_all add: link_clients_def)
  from add_clients_rows [of "nat n" db0] a
  have r0: "rows (exchange db1) = rows (exchange db0) @ replicate (nat n) Map.empty"
    and s0: "schema (exchange db1) = schema (exchange db0)" by simp_all
  from create_fields_exchange [OF c] r0 s0
  have r: "rows (exchange db1) = replicate (nat n) Map.empty"
    and s: "schema (exchange db1)
               = schema (exchange db) @ net_fields (network m) @ pred_fields (network m)"
    by simp_all
  show "rows (exchange db1) = replicate (nat n) Map.empty" by (rule r)
  show "int (length (rows (exchange db1))) = n" using r assms by simp
  show "schema (exchange db1)
               = schema (exchange db) @ net_fields (network m) @ pred_fields (network m)" by (rule s)
qed


section \<open>Online prediction\<close>

lemma return_prediction_field:
  assumes "return_prediction nf coeffs b = Inr p" and "map_of b X = Some t"
  shows "\<exists>x target y. first_item t = Inr x \<and> map_of nf X = Some target
           \<and> (case map_of coeffs target of None \<Rightarrow> Inr x | Some c \<Rightarrow> normalize_data x c True) = Inr y
           \<and> map_of p X = Some y"
  using assms
proof (induction b arbitrary: p)
  case Nil
  then show ?case by simp
next
  case (Cons a b)
  obtain field v where a: "a = (field, v)" by (cases a)
  from Cons.prems(1) a obtain x target y ys where
    x: "first_item v = Inr x" and tg: "map_of nf field = Some target"
    and y: "(case map_of coeffs target of None \<Rightarrow> Inr x | Some c \<Rightarrow> normalize_data x c True) = Inr y"
    and ys: "return_prediction nf coeffs b = Inr ys" and p: "p = (field, y) # ys"
    by (auto simp: Let_def split: sum.splits option.splits)
  show ?case
  proof (cases "field = X")
    case True
    with Cons.prems(2) a have "v = t" by simp
    with x tg y p True show ?thesis by auto
  next
    case False
    with Cons.prems(2) a have "map_of b X = Some t" by simp
    from Cons.IH [OF ys this] p False show ?thesis by auto
  qed
qed

lemma return_prediction_keys:
  "return_prediction nf coeffs b = Inr p \<Longrightarrow> map fst p = map fst b"
proof (induction b arbitrary: p)
  case Nil
  then show ?case by simp
next
  case (Cons a b)
  obtain field v where a: "a = (field, v)" by (cases a)
  from Cons.prems a obtain y ys where
    ys: "return_prediction nf coeffs b = Inr ys" and p: "p = (field, y) # ys"
    by (auto simp: Let_def split: sum.splits option.splits)
  from Cons.IH [OF ys] p a show ?case by simp
qed

lemma online_prediction_written_field:
  assumes ok: "compute_online_prediction m i (Some coeffs) db = Inr db'"
    and sample: "online_sample m i coeffs db = Inr sample"
    and out: "map_of (network_output m sample) X = Some t"
    and item: "first_item t = Inr x"
    and target: "map_of (pred_norm_fields (network m)) X = Some Y"
    and c: "map_of coeffs Y = Some [mean, scale]"
  shows "exchange_field (Inr db') (nat i) X
           = Some (array_map (elem_add mean) (array_map (elem_mul scale) x))"
proof -
  from compute_online_prediction_steps [OF ok] sample obtain data_pred where
    rp: "return_prediction (pred_norm_fields (network m)) coeffs (network_output m sample) = Inr data_pred"
    and up: "update ''Exchange'' data_pred i db = Inr db'"
    by auto
  from return_prediction_field [OF rp out] item target c
  have "map_of data_pred X = Some (array_map (elem_add mean) (array_map (elem_mul scale) x))"
    by (auto simp: normalize_reverse)
  with update_exchange_rows [OF up] show ?thesis
    by (simp add: exchange_field_def map_add_def)
qed

lemma online_prediction_other_fields:
  assumes ok: "compute_online_prediction m i n db = Inr db'"
    and sample: "online_sample m i (case n of None \<Rightarrow> [] | Some c \<Rightarrow> c) db = Inr sample"
    and f: "f \<notin> fst ` set (network_output m sample)"
  shows "exchange_field (Inr db') (nat i) f = exchange_field (Inr db) (nat i) f"
proof -
  from compute_online_prediction_steps [OF ok] sample obtain data_pred where
    rp: "return_prediction (pred_norm_fields (network m)) (case n of None \<Rightarrow> [] | Some c \<Rightarrow> c)
           (network_output m sample) = Inr data_pred"
    and up: "update ''Exchange'' data_pred i db = Inr db'"
    by auto
  from return_prediction_keys [OF rp] f have "f \<notin> fst ` set data_pred"
    by (metis list.set_map)
  then have "map_of data_pred f = None" by (simp add: map_of_eq_None_iff)
  with update_exchange_rows [OF up] show ?thesis
    by (simp add: exchange_field_def map_add_def)
qed

text \<open>
  C3. When \<open>compute_online_prediction\<close> serves an Exchange row with coefficients, the
  first item of the network's output for a field is \<open>[3.0]\<close>, and the
  reverse-normalization target registered for the field has the coefficients
  \<open>(mean = 1.0, scale = 2.0)\<close>, the row holds \<open>[7.0]\<close> for that field afterwards.
\<close>

theorem online_prediction_reverse_normalization:
  assumes ok: "compute_online_prediction m i (Some coeffs) db = Inr db'"
    and sample: "online_sample m i coeffs db = Inr sample"
    and out: "map_of (network_output m sample) X = Some t"
    and item: "first_item t = Inr (NDArray [1] [Fin 3])"
    and target: "map_of (pred_norm_fields (network m)) X = Some Y"
    and c: "map_of coeffs Y = Some [1, 2]"
  shows "exchange_field (Inr db') (nat i) X = Some (NDArray [1] [Fin 7])"
  using online_prediction_written_field [OF ok sample out item target c]
  by (simp add: array_map_def round64_six round64_seven)

theorem online_prediction_reverse_normalization_witness:
  "exchange_field
     (compute_online_prediction (example_manager 2 True (NDArray [1, 1] [Fin 3])) 0
        (Some [(''ground_truth'', [1, 2])]) example_database) 0 ''prediction''
     = Some (NDArray [1] [Fin 7])"
proof -
  let ?m = "example_manager 2 True (NDArray [1, 1] [Fin 3])"
  let ?c = "[(''ground_truth'', [1, 2 :: real])]"
  have s: "online_sample ?m 0 ?c example_database = Inr [(''input'', NDArray [1, 1] [Fin 5])]"
    by code_simp
  have o: "map_of (network_output ?m [(''input'', NDArray [1, 1] [Fin 5])]) ''prediction''
             = Some (NDArray [1, 1] [Fin 3])"
    by code_simp
  have f: "first_item (NDArray [1, 1] [Fin 3]) = Inr (NDArray [1] [Fin 3])" by code_simp
  have t: "map_of (pred_norm_fields (network ?m)) ''prediction'' = Some ''ground_truth''"
    by code_simp
  have c: "map_of ?c ''ground_truth'' = Some [1, 2]" by simp
  have "exchange_field (compute_online_prediction ?m 0 (Some ?c) example_database) 0 ''prediction''
          \<noteq> None"
    by code_simp
  then obtain db' where ok: "compute_online_prediction ?m 0 (Some ?c) example_database = Inr db'"
    by (cases "compute_online_prediction ?m 0 (Some ?c) example_database")
       (simp_all add: exchange_field_def)
  from online_prediction_reverse_normalization [OF ok s o f t c] ok
  show ?thesis by simp
qed

text \<open>
  C4. A network output of shape \<open>(1, 2, 2)\<close> for the field \<open>prediction\<close>: the row
  receives the array of shape \<open>(2, 2)\<close>, not the one-dimensional array of its four
  elements that \<open>reshape(-1)\<close> returns, since that value is dropped. The field \<open>step\<close>
  of the row, which is not in the prediction, keeps its value.
\<close>

theorem online_prediction_not_flattened:
  "map_option shape
     (exchange_field
        (compute_online_prediction
           (example_manager 2 True (NDArray [1, 2, 2] [Fin 1, Fin 2, Fin 3, Fin 4])) 0 None
           example_database) 0 ''prediction'')
     = Some [2, 2]
   \<and> exchange_field
        (compute_online_prediction
           (example_manager 2 True (NDArray [1, 2, 2] [Fin 1, Fin 2, Fin 3, Fin 4])) 0 None
           example_database) 0 ''step''
     = Some (NDArray [1] [Fin 9])
   \<and> shape (reshape_flat (NDArray [2, 2] [Fin 1, Fin 2, Fin 3, Fin 4])) = [4]"
  by code_simp


section \<open>Launching a worker\<close>

lemma launch_client_not_usage:
  "\<not> is_usage_exit (launch_client importable argv)"
  by (simp add: launch_client_def split: sum.splits)

text \<open>
  C9. The launcher is called with the script name and the positional arguments
  \<open>args\<close>. Unless there are exactly six of them it prints the usage line and exits
  with status 1. With exactly six it does not take that exit: it goes on to build
  the client, and when the environment class can be imported and the port, the
  instance id and the instance count are integers, the client is launched with
  the third argument as address and those three numbers.
\<close>

theorem launcher_argument_count:
  "(length args \<noteq> 6 \<longrightarrow> launcher_main importable (script # args) = Usage script 1)
   \<and> (length args = 6 \<longrightarrow>
        \<not> is_usage_exit (launcher_main importable (script # args))
      \<and> (importable (dirname (args ! 0)) (module_of_path (args ! 0)) (args ! 1)
           \<and> py_int (args ! 3) = Inr p \<and> py_int (args ! 4) = Inr i \<and> py_int (args ! 5) = Inr n
         \<longrightarrow> launcher_main importable (script # args)
               = Launched \<lparr>environment = (module_of_path (args ! 0), args ! 1),
                           ip_address = args ! 2, port = p, instance_id = i, instance_nb = n\<rparr>))"
proof (intro conjI impI)
  assume "length args \<noteq> 6"
  then show "launcher_main importable (script # args) = Usage script 1"
    by (simp add: launcher_main_def py_index_def)
next
  assume "length args = 6"
  then show "\<not> is_usage_exit (launcher_main importable (script # args))"
    by (simp add: launcher_main_def launch_client_not_usage)
next
  assume six: "length args = 6"
    and "importable (dirname (args ! 0)) (module_of_path (args ! 0)) (args ! 1)
           \<and> py_int (args ! 3) = Inr p \<and> py_int (args ! 4) = Inr i \<and> py_int (args ! 5) = Inr n"
  then show "launcher_main importable (script # args)
               = Launched \<lparr>environment = (module_of_path (args ! 0), args ! 1),
                           ip_address = args ! 2, port = p, instance_id = i, instance_nb = n\<rparr>"
    by (simp add: launcher_main_def launch_client_def numeral_eq_Suc)
qed

theorem launcher_argument_count_witness:
  "launcher_main (\<lambda>d m c. True) [''launcher.py'', ''/a/b/env.py'', ''Env'', ''localhost'', ''10000'', ''1'']
     = Usage ''launcher.py'' 1
   \<and> launcher_main (\<lambda>d m c. True)
        [''launcher.py'', ''/a/b/env.py'', ''Env'', ''localhost'', ''10000'', ''1'', ''4'']
     = Launched \<lparr>environment = (''env'', ''Env''), ip_address = ''localhost'',
                 port = 10000, instance_id = 1, instance_nb = 4\<rparr>"
proof -
  have p: "py_int ''10000'' = Inr 10000" by code_simp
  have i: "py_int ''1'' = Inr 1" by code_simp
  have n: "py_int ''4'' = Inr 4" by code_simp
  have m: "module_of_path ''/a/b/env.py'' = ''env''" by code_simp
  from launcher_argument_count
         [of "[''/a/b/env.py'', ''Env'', ''localhost'', ''10000'', ''1'']" "\<lambda>d m c. True" "''launcher.py''"]
  have a: "launcher_main (\<lambda>d m c. True) [''launcher.py'', ''/a/b/env.py'', ''Env'', ''localhost'', ''10000'', ''1'']
     = Usage ''launcher.py'' 1" by simp
  from launcher_argument_count
         [of "[''/a/b/env.py'', ''Env'', ''localhost'', ''10000'', ''1'', ''4'']" "\<lambda>d m c. True" "''launcher.py''" 10000 1 4]
       p i n m
  have b: "launcher_main (\<lambda>d m c. True)
        [''launcher.py'', ''/a/b/env.py'', ''Env'', ''localhost'', ''10000'', ''1'', ''4'']
     = Launched \<lparr>environment = (''env'', ''Env''), ip_address = ''localhost'',
                 port = 10000, instance_id = 1, instance_nb = 4\<rparr>" by simp
  from a b show ?thesis by simp
qed


end
